theory Spec2Isabelle
  imports Main
begin

section \<open>Python strings\<close>

text \<open>
  A Python \<open>str\<close> is a sequence of Unicode code points, and \<open>len\<close> counts code points.
  A string is therefore modelled as the list of its code points; \<open>str\<close> turns a literal
  of the source (all of them are ASCII) into that list.
\<close>

type_synonym pystr = "nat list"

definition str :: "string \<Rightarrow> pystr" where
  "str s = map of_char s"

text \<open>
  \<open>str.isspace\<close> of one character: the code points whose bidirectional class is WS, B or S
  or whose general category is Zs. This is the table \<open>str.strip()\<close> uses.
\<close>

definition isspace :: "nat \<Rightarrow> bool" where
  "isspace c =
     ((0x09 \<le> c \<and> c \<le> 0x0D) \<or> (0x1C \<le> c \<and> c \<le> 0x20) \<or> c = 0x85 \<or> c = 0xA0
      \<or> c = 0x1680 \<or> (0x2000 \<le> c \<and> c \<le> 0x200A) \<or> c = 0x2028 \<or> c = 0x2029
      \<or> c = 0x202F \<or> c = 0x205F \<or> c = 0x3000)"

text \<open>\<open>s.strip()\<close>: leading and trailing whitespace removed.\<close>

definition strip :: "pystr \<Rightarrow> pystr" where
  "strip s = rev (dropWhile isspace (rev (dropWhile isspace s)))"

text \<open>\<open>s.startswith(p)\<close>.\<close>

definition startswith :: "pystr \<Rightarrow> pystr \<Rightarrow> bool" where
  "startswith s p = (take (length p) s = p)"

text \<open>
  \<open>s.isdigit()\<close>: \<open>s\<close> is not empty and each of its characters is a digit. Which code
  points are digits is a table of the Unicode database (the ASCII digits, and many more);
  it is the parameter \<open>digit\<close>.
\<close>

definition isdigit :: "(nat \<Rightarrow> bool) \<Rightarrow> pystr \<Rightarrow> bool" where
  "isdigit digit s = (s \<noteq> [] \<and> list_all digit s)"

text \<open>\<open>sub in s\<close>: \<open>sub\<close> occurs in \<open>s\<close> as a substring.\<close>

fun contains :: "pystr \<Rightarrow> pystr \<Rightarrow> bool" where
  "contains sub [] = (sub = [])"
| "contains sub (c # cs) = (startswith (c # cs) sub \<or> contains sub cs)"

text \<open>\<open>sep.join(xs)\<close>.\<close>

fun join :: "pystr \<Rightarrow> pystr list \<Rightarrow> pystr" where
  "join sep [] = []"
| "join sep [x] = x"
| "join sep (x # y # ys) = x @ sep @ join sep (y # ys)"

section \<open>Console output and control flow\<close>

datatype Level = OK | INFO | WARNING | ERROR

text \<open>
  What the hook writes to the console: \<open>Colored level message\<close> is one call of
  \<open>print_with_color(message, level)\<close> (the escape sequences around the text are not
  modelled), \<open>Printed v\<close> is one call of \<open>print(v)\<close>, where \<open>v\<close> is a string or \<open>None\<close>.
\<close>

datatype event = Colored Level pystr | Printed "pystr option"

text \<open>
  The local variables that \<open>check_commit_msg_pattern\<close> assigns more than once, and the
  console.
\<close>

record locals =
  has_warning :: bool
  valid_issue_tracker_tool_with_suffix :: "pystr option"
  has_story_id :: bool
  stdout :: "event list"

text \<open>
  A statement either falls through to the next one (\<open>Next\<close>) or raises \<open>SystemExit\<close> with
  a status (\<open>Exit\<close>), which nothing in the program catches.
\<close>

datatype flow = Next | Exit int

type_synonym stmt = "locals \<Rightarrow> locals \<times> flow"

definition skip :: stmt where
  "skip s = (s, Next)"

definition seq :: "stmt \<Rightarrow> stmt \<Rightarrow> stmt" where
  "seq a b s = (case a s of (s', Next) \<Rightarrow> b s' | (s', Exit c) \<Rightarrow> (s', Exit c))"

primrec block :: "stmt list \<Rightarrow> stmt" where
  "block [] = skip"
| "block (a # as) = seq a (block as)"

text \<open>\<open>if cond: body\<close>, where the condition reads the local variables.\<close>

definition when_st :: "(locals \<Rightarrow> bool) \<Rightarrow> stmt \<Rightarrow> stmt" where
  "when_st cond body s = (if cond s then body s else (s, Next))"

text \<open>\<open>for x in xs: body\<close>.\<close>

primrec for_each :: "'a list \<Rightarrow> ('a \<Rightarrow> stmt) \<Rightarrow> stmt" where
  "for_each [] body = skip"
| "for_each (x # xs) body = seq (body x) (for_each xs body)"

definition sys_exit :: "int \<Rightarrow> stmt" where
  "sys_exit c s = (s, Exit c)"

definition print_with_color :: "pystr \<Rightarrow> Level \<Rightarrow> stmt" where
  "print_with_color message level s = (s\<lparr>stdout := stdout s @ [Colored level message]\<rparr>, Next)"

definition print :: "(locals \<Rightarrow> pystr option) \<Rightarrow> stmt" where
  "print v s = (s\<lparr>stdout := stdout s @ [Printed (v s)]\<rparr>, Next)"

definition set_has_warning :: "bool \<Rightarrow> stmt" where
  "set_has_warning b s = (s\<lparr>has_warning := b\<rparr>, Next)"

definition set_has_story_id :: "bool \<Rightarrow> stmt" where
  "set_has_story_id b s = (s\<lparr>has_story_id := b\<rparr>, Next)"

definition set_tool_with_suffix :: "pystr option \<Rightarrow> stmt" where
  "set_tool_with_suffix v s = (s\<lparr>valid_issue_tracker_tool_with_suffix := v\<rparr>, Next)"

section \<open>The commit-message hook\<close>

definition valid_commit_types :: "pystr list" where
  "valid_commit_types =
     [str ''feat'', str ''fix'', str ''refactor'', str ''style'', str ''docs'', str ''test'',
      str ''chore'', str ''revert'']"

definition valid_issue_tracker_tools :: "pystr list" where
  "valid_issue_tracker_tools =
     [str ''jira'', str ''github'', str ''gitlab'', str ''bitbucket'', str ''launchpad'',
      str ''zendesk'']"

definition valid_issue_tracker_tools_short_names :: "pystr list" where
  "valid_issue_tracker_tools_short_names =
     [str ''jr'', str ''gh'', str ''gl'', str ''bb'', str ''lp'', str ''zd'']"

definition valid_issue_tracker_suffixes :: "pystr list" where
  "valid_issue_tracker_suffixes = [str '':'', str ''/'', str ''#'', str ''-'', str '' '']"

text \<open>
  The list built by the two nested loops: every tool name with every suffix, then every
  short name with every suffix.
\<close>

definition valid_issue_tracker_tools_with_suffixes :: "pystr list" where
  "valid_issue_tracker_tools_with_suffixes =
     concat (map (\<lambda>tool. map (\<lambda>suffix. tool @ suffix) valid_issue_tracker_suffixes)
               valid_issue_tracker_tools)
     @ concat (map (\<lambda>short_name. map (\<lambda>suffix. short_name @ suffix) valid_issue_tracker_suffixes)
                 valid_issue_tracker_tools_short_names)"

definition msg_lines :: pystr where
  "msg_lines = str ''There should at least 4 lines in your commit message.''"

definition msg_title :: pystr where
  "msg_title = str ''There should be less then 50 characters in the commit title.''"

definition msg_type :: pystr where
  "msg_type =
     str ''The commit title needs to have a commit type: '' @ join (str '', '') valid_commit_types"

definition msg_tracker :: pystr where
  "msg_tracker =
     str ''The commit title needs to have a issue track tool code and number type: ''
     @ join (str '', '') valid_commit_types"

definition msg_blank :: pystr where
  "msg_blank = str ''There should be an empty line between the commit title and body.''"

definition msg_wrap :: pystr where
  "msg_wrap = str ''The commit body should wrap at 72 characters.''"

definition msg_story :: pystr where
  "msg_story = str ''Please add a Story ID in the commit message.''"

definition msg_ok :: pystr where
  "msg_ok = str ''The commit message has the required pattern.''"

text \<open>Line 59: the comment lines of the message are removed.\<close>

definition strip_comments :: "pystr list \<Rightarrow> pystr list" where
  "strip_comments lines = filter (\<lambda>line. \<not> startswith (strip line) (str ''#'')) lines"

text \<open>Lines 64 to 67.\<close>

definition structure_check :: "pystr list \<Rightarrow> stmt" where
  "structure_check commit_message =
     (if length commit_message < 4
      then block [print_with_color msg_lines ERROR, sys_exit 1]
      else skip)"

text \<open>Lines 70 to 76.\<close>

definition title_length_check :: "pystr \<Rightarrow> stmt" where
  "title_length_check title =
     (if length title > 50
      then block [set_has_warning True, print_with_color msg_title WARNING, sys_exit 1]
      else skip)"

text \<open>Lines 78 to 83.\<close>

definition commit_type_check :: "pystr \<Rightarrow> stmt" where
  "commit_type_check title =
     (if \<not> list_ex (\<lambda>commit_type. startswith title commit_type) valid_commit_types
      then block [set_has_warning True, print_with_color msg_type WARNING, sys_exit 1]
      else skip)"

text \<open>Lines 90 to 95.\<close>

definition tracker_name_check :: "pystr \<Rightarrow> stmt" where
  "tracker_name_check title =
     for_each valid_issue_tracker_tools (\<lambda>tool.
       if startswith title tool
       then block [set_has_warning True, print_with_color msg_type WARNING, sys_exit 1]
       else skip)"

text \<open>Lines 109 to 116. The loop variable stays assigned after the loop.\<close>

definition tracker_reference_check :: "(nat \<Rightarrow> bool) \<Rightarrow> pystr \<Rightarrow> stmt" where
  "tracker_reference_check digit title =
     block
      [set_tool_with_suffix None,
       for_each valid_issue_tracker_tools_with_suffixes (\<lambda>token.
         block
          [set_tool_with_suffix (Some token),
           if startswith title token
           then (if \<not> isdigit digit (drop (length token) title)
                 then block [set_has_warning True, print_with_color msg_tracker WARNING,
                             sys_exit 1]
                 else skip)
           else skip])]"

text \<open>Lines 118 and 119.\<close>

definition print_token_and_exit :: stmt where
  "print_token_and_exit = block [print valid_issue_tracker_tool_with_suffix, sys_exit 1]"

text \<open>Lines 127 to 133.\<close>

definition blank_separator_check :: "pystr list \<Rightarrow> stmt" where
  "blank_separator_check commit_message =
     (if strip (commit_message ! 1) \<noteq> []
      then block [set_has_warning True, print_with_color msg_blank WARNING, sys_exit 1]
      else skip)"

text \<open>Lines 135 to 149.\<close>

definition body_check :: "pystr list \<Rightarrow> stmt" where
  "body_check commit_message =
     block
      [set_has_story_id False,
       for_each (drop 2 commit_message) (\<lambda>line.
         block
          [if length line > 72
           then block [set_has_warning True, print_with_color msg_wrap WARNING, sys_exit 1]
           else skip,
           if contains (str ''[#'') line then set_has_story_id True else skip]),
       when_st (\<lambda>s. \<not> has_story_id s) (block [print_with_color msg_story WARNING, sys_exit 1])]"

text \<open>Lines 151 to 153.\<close>

definition report_ok :: stmt where
  "report_ok = when_st (\<lambda>s. \<not> has_warning s) (print_with_color msg_ok OK)"

text \<open>
  The state in which the function starts: nothing has been printed. The three variables
  are assigned by the function before it reads them.
\<close>

definition start :: locals where
  "start = \<lparr>has_warning = False, valid_issue_tracker_tool_with_suffix = None,
            has_story_id = False, stdout = []\<rparr>"

text \<open>
  Lines 63 to 119, the checks of the title; \<open>title\<close> is \<open>commit_message[0]\<close>, read at
  line 69 after the exit of \<open>structure_check\<close>, so the read is in range whenever it is
  executed.
\<close>

definition title_checks :: "(nat \<Rightarrow> bool) \<Rightarrow> pystr list \<Rightarrow> stmt list" where
  "title_checks digit commit_message =
     (let title = commit_message ! 0
      in [set_has_warning False,
          structure_check commit_message,
          title_length_check title,
          commit_type_check title,
          tracker_name_check title,
          tracker_reference_check digit title,
          print_token_and_exit])"

text \<open>Lines 127 to 153, the checks of the separator line and of the body.\<close>

definition body_checks :: "pystr list \<Rightarrow> stmt list" where
  "body_checks commit_message =
     [blank_separator_check commit_message,
      body_check commit_message,
      report_ok]"

text \<open>
  \<open>check_commit_msg_pattern\<close>, from line 59 on: its argument is the list of lines that
  \<open>readlines\<close> returned for the message file.
\<close>

definition check_commit_msg_pattern :: "(nat \<Rightarrow> bool) \<Rightarrow> pystr list \<Rightarrow> locals \<times> flow" where
  "check_commit_msg_pattern digit lines =
     (let commit_message = strip_comments lines
      in block (title_checks digit commit_message @ body_checks commit_message) start)"

text \<open>
  \<open>main\<close> and the process around it: the console output and the exit status. When
  \<open>check_commit_msg_pattern\<close> returns, \<open>main\<close> returns 0 and that is the status.
\<close>

definition main :: "(nat \<Rightarrow> bool) \<Rightarrow> pystr list \<Rightarrow> event list \<times> int" where
  "main digit lines =
     (case check_commit_msg_pattern digit lines of
        (s, Exit c) \<Rightarrow> (stdout s, c)
      | (s, Next) \<Rightarrow> (stdout s, 0))"

section \<open>Strings and statements\<close>

lemma startswith_Nil [simp]: "startswith s [] = True"
  by (simp add: startswith_def)

lemma startswith_Nil_Cons [simp]: "startswith [] (p # ps) = False"
  by (simp add: startswith_def)

lemma startswith_Cons_Cons [simp]: "startswith (c # cs) (p # ps) = (c = p \<and> startswith cs ps)"
  by (simp add: startswith_def)

lemma startswith_hd: "startswith s p \<Longrightarrow> p \<noteq> [] \<Longrightarrow> s \<noteq> [] \<and> hd s = hd p"
  by (cases s; cases p) simp_all

lemma valid_commit_types_hd:
  "t \<in> set valid_commit_types \<Longrightarrow> t \<noteq> [] \<and> hd t \<in> {102, 114, 115, 100, 116, 99}"
  by (auto simp: valid_commit_types_def str_def)

lemma tools_hd:
  "t \<in> set valid_issue_tracker_tools \<Longrightarrow> t \<noteq> [] \<and> hd t \<in> {106, 103, 98, 108, 122}"
  by (auto simp: valid_issue_tracker_tools_def str_def)

lemma short_names_hd:
  "t \<in> set valid_issue_tracker_tools_short_names \<Longrightarrow> t \<noteq> [] \<and> hd t \<in> {106, 103, 98, 108, 122}"
  by (auto simp: valid_issue_tracker_tools_short_names_def str_def)

lemma tokens_hd:
  assumes "t \<in> set valid_issue_tracker_tools_with_suffixes"
  shows "t \<noteq> [] \<and> hd t \<in> {106, 103, 98, 108, 122}"
proof -
  from assms obtain tool suffix where
    t: "t = tool @ suffix" and
    tool: "tool \<in> set valid_issue_tracker_tools \<or> tool \<in> set valid_issue_tracker_tools_short_names"
    unfolding valid_issue_tracker_tools_with_suffixes_def by auto
  from tool have "tool \<noteq> [] \<and> hd tool \<in> {106, 103, 98, 108, 122}"
    using tools_hd short_names_hd by blast
  with t show ?thesis by simp
qed

lemma typed_title_hd:
  assumes "list_ex (\<lambda>commit_type. startswith title commit_type) valid_commit_types"
  shows "title \<noteq> [] \<and> hd title \<in> {102, 114, 115, 100, 116, 99}"
proof -
  from assms obtain t where t: "t \<in> set valid_commit_types" and s: "startswith title t"
    by (auto simp: list_ex_iff)
  from valid_commit_types_hd [OF t] startswith_hd [OF s] show ?thesis by simp
qed

lemma typed_title_no_tool:
  assumes "list_ex (\<lambda>commit_type. startswith title commit_type) valid_commit_types"
    and "tool \<in> set valid_issue_tracker_tools"
  shows "\<not> startswith title tool"
proof
  assume s: "startswith title tool"
  from tools_hd [OF assms(2)] startswith_hd [OF s] typed_title_hd [OF assms(1)]
  show False by auto
qed

lemma typed_title_no_token:
  assumes "list_ex (\<lambda>commit_type. startswith title commit_type) valid_commit_types"
    and "token \<in> set valid_issue_tracker_tools_with_suffixes"
  shows "\<not> startswith title token"
proof
  assume s: "startswith title token"
  from tokens_hd [OF assms(2)] startswith_hd [OF s] typed_title_hd [OF assms(1)]
  show False by auto
qed

lemma for_each_no_match:
  "(\<And>x. x \<in> set xs \<Longrightarrow> \<not> cond x) \<Longrightarrow>
   for_each xs (\<lambda>x. if cond x then body x else skip) s = (s, Next)"
  by (induction xs) (simp_all add: skip_def seq_def)

lemma for_each_assign_no_match:
  "(\<And>x. x \<in> set xs \<Longrightarrow> \<not> cond x) \<Longrightarrow> xs \<noteq> [] \<Longrightarrow>
   for_each xs (\<lambda>x. block [set_tool_with_suffix (Some x), if cond x then body x else skip]) s
     = (s\<lparr>valid_issue_tracker_tool_with_suffix := Some (last xs)\<rparr>, Next)"
proof (induction xs arbitrary: s)
  case Nil
  then show ?case by simp
next
  case (Cons x xs)
  show ?case
  proof (cases "xs = []")
    case True
    with Cons.prems show ?thesis
      by (simp add: skip_def seq_def set_tool_with_suffix_def)
  next
    case False
    with Cons show ?thesis
      by (simp add: skip_def seq_def set_tool_with_suffix_def)
  qed
qed

lemma last_token: "last valid_issue_tracker_tools_with_suffixes = str ''zd ''"
  by (simp add: valid_issue_tracker_tools_with_suffixes_def valid_issue_tracker_suffixes_def
      valid_issue_tracker_tools_short_names_def str_def)

lemma tokens_nonempty: "valid_issue_tracker_tools_with_suffixes \<noteq> []"
  by (simp add: valid_issue_tracker_tools_with_suffixes_def valid_issue_tracker_suffixes_def
      valid_issue_tracker_tools_short_names_def)

lemma length_tokens: "length valid_issue_tracker_tools_with_suffixes = 60"
  by (simp add: valid_issue_tracker_tools_with_suffixes_def valid_issue_tracker_suffixes_def
      valid_issue_tracker_tools_short_names_def valid_issue_tracker_tools_def)

text \<open>A line is a comment when its first character that is not whitespace is \<open>#\<close>.\<close>

lemma strip_starts:
  "startswith (strip line) (str ''#'') =
     (case dropWhile isspace line of [] \<Rightarrow> False | c # cs \<Rightarrow> c = 35)"
proof (cases "dropWhile isspace line")
  case Nil
  show ?thesis unfolding strip_def Nil by (simp add: str_def)
next
  case (Cons c cs)
  then have c: "\<not> isspace c"
    using hd_dropWhile [of isspace line] by simp
  have "\<exists>ys. dropWhile isspace (rev cs @ [c]) = ys @ [c]"
    using c by (simp add: dropWhile_append)
  then obtain ys where "dropWhile isspace (rev cs @ [c]) = ys @ [c]" ..
  then show ?thesis unfolding strip_def Cons by (simp add: str_def)
qed

lemma strip_comments_Nil: "strip_comments [] = []"
  by (simp add: strip_comments_def)

lemma strip_comments_Cons:
  "strip_comments (line # lines) =
     (case dropWhile isspace line of
        [] \<Rightarrow> line # strip_comments lines
      | c # cs \<Rightarrow> if c = 35 then strip_comments lines else line # strip_comments lines)"
proof (cases "dropWhile isspace line")
  case Nil
  have "\<not> startswith (strip line) (str ''#'')"
    unfolding strip_starts Nil by simp
  then have "strip_comments (line # lines) = line # strip_comments lines"
    by (simp add: strip_comments_def)
  then show ?thesis unfolding Nil by simp
next
  case (Cons c cs)
  have "startswith (strip line) (str ''#'') = (c = 35)"
    unfolding strip_starts Cons by simp
  then have "strip_comments (line # lines) =
      (if c = 35 then strip_comments lines else line # strip_comments lines)"
    by (simp add: strip_comments_def)
  then show ?thesis unfolding Cons by simp
qed

lemma msgs_distinct:
  "msg_title \<noteq> msg_type" "msg_tracker \<noteq> msg_type" "msg_tracker \<noteq> msg_title" "msg_tracker \<noteq> msg_lines"
  by (simp_all add: msg_title_def msg_type_def msg_tracker_def msg_lines_def str_def)

section \<open>The four ways through the checks of the title\<close>

lemma block_append: "block (xs @ ys) = seq (block xs) (block ys)"
proof (induction xs)
  case Nil
  show ?case by (rule ext) (simp add: seq_def skip_def)
next
  case (Cons a xs)
  then show ?case by (auto simp: seq_def fun_eq_iff split: prod.splits flow.splits)
qed

lemma tracker_name_check_typed:
  assumes "list_ex (\<lambda>commit_type. startswith title commit_type) valid_commit_types"
  shows "tracker_name_check title s = (s, Next)"
  unfolding tracker_name_check_def
  by (rule for_each_no_match) (rule typed_title_no_tool [OF assms])

lemma tracker_reference_check_typed:
  assumes "list_ex (\<lambda>commit_type. startswith title commit_type) valid_commit_types"
  shows "tracker_reference_check digit title s =
           (s\<lparr>valid_issue_tracker_tool_with_suffix := Some (str ''zd '')\<rparr>, Next)"
proof -
  have "for_each valid_issue_tracker_tools_with_suffixes (\<lambda>token.
         block
          [set_tool_with_suffix (Some token),
           if startswith title token
           then (if \<not> isdigit digit (drop (length token) title)
                 then block [set_has_warning True, print_with_color msg_tracker WARNING,
                             sys_exit 1]
                 else skip)
           else skip]) s' = (s'\<lparr>valid_issue_tracker_tool_with_suffix := Some (str ''zd '')\<rparr>, Next)" for s'
    using for_each_assign_no_match [of valid_issue_tracker_tools_with_suffixes "startswith title", OF typed_title_no_token [OF assms] tokens_nonempty]
    by (simp add: last_token)
  then show ?thesis
    by (simp add: tracker_reference_check_def seq_def skip_def set_tool_with_suffix_def)
qed

lemma title_checks_too_few:
  assumes "length commit_message < 4"
  shows "block (title_checks digit commit_message) start =
           (\<lparr>has_warning = False, valid_issue_tracker_tool_with_suffix = None,
             has_story_id = False, stdout = [Colored ERROR msg_lines]\<rparr>, Exit 1)"
  using assms
  by (simp add: title_checks_def Let_def seq_def start_def set_has_warning_def
      structure_check_def print_with_color_def sys_exit_def skip_def)

lemma title_checks_long_title:
  assumes "4 \<le> length commit_message" and "50 < length (commit_message ! 0)"
  shows "block (title_checks digit commit_message) start =
           (\<lparr>has_warning = True, valid_issue_tracker_tool_with_suffix = None,
             has_story_id = False, stdout = [Colored WARNING msg_title]\<rparr>, Exit 1)"
  using assms
  by (simp add: title_checks_def Let_def seq_def start_def set_has_warning_def
      structure_check_def title_length_check_def print_with_color_def sys_exit_def skip_def)

lemma title_checks_untyped:
  assumes "4 \<le> length commit_message" and "length (commit_message ! 0) \<le> 50"
    and "\<not> list_ex (\<lambda>commit_type. startswith (commit_message ! 0) commit_type) valid_commit_types"
  shows "block (title_checks digit commit_message) start =
           (\<lparr>has_warning = True, valid_issue_tracker_tool_with_suffix = None,
             has_story_id = False, stdout = [Colored WARNING msg_type]\<rparr>, Exit 1)"
  using assms
  by (simp add: title_checks_def Let_def seq_def start_def set_has_warning_def
      structure_check_def title_length_check_def commit_type_check_def print_with_color_def
      sys_exit_def skip_def)

lemma title_checks_typed:
  assumes "4 \<le> length commit_message" and "length (commit_message ! 0) \<le> 50"
    and "list_ex (\<lambda>commit_type. startswith (commit_message ! 0) commit_type) valid_commit_types"
  shows "block (title_checks digit commit_message) start =
           (\<lparr>has_warning = False, valid_issue_tracker_tool_with_suffix = Some (str ''zd ''),
             has_story_id = False, stdout = [Printed (Some (str ''zd ''))]\<rparr>, Exit 1)"
  using assms
  by (simp add: title_checks_def Let_def seq_def start_def set_has_warning_def
      structure_check_def title_length_check_def commit_type_check_def
      tracker_name_check_typed tracker_reference_check_typed print_token_and_exit_def
      print_def sys_exit_def skip_def)

lemma title_checks_exit:
  "\<exists>s. block (title_checks digit commit_message) start = (s, Exit 1)"
proof -
  consider "length commit_message < 4"
    | "4 \<le> length commit_message" "50 < length (commit_message ! 0)"
    | "4 \<le> length commit_message" "length (commit_message ! 0) \<le> 50"
      "\<not> list_ex (\<lambda>commit_type. startswith (commit_message ! 0) commit_type) valid_commit_types"
    | "4 \<le> length commit_message" "length (commit_message ! 0) \<le> 50"
      "list_ex (\<lambda>commit_type. startswith (commit_message ! 0) commit_type) valid_commit_types"
    by linarith
  then show ?thesis
    by cases (simp_all add: title_checks_too_few title_checks_long_title title_checks_untyped title_checks_typed)
qed

lemma check_eq_title_checks:
  "block (title_checks digit commit_message) start = (s, Exit c) \<Longrightarrow>
   block (title_checks digit commit_message @ rest) start = (s, Exit c)"
  by (simp add: block_append seq_def)

lemma main_eq:
  "block (title_checks digit (strip_comments lines)) start = (s, Exit c) \<Longrightarrow>
   check_commit_msg_pattern digit lines = (s, Exit c) \<and> main digit lines = (stdout s, c)"
  by (simp add: main_def check_commit_msg_pattern_def Let_def check_eq_title_checks)

lemma main_typed:
  assumes "4 \<le> length (strip_comments lines)"
    and "length (strip_comments lines ! 0) \<le> 50"
    and "list_ex (\<lambda>commit_type. startswith (strip_comments lines ! 0) commit_type)
           valid_commit_types"
  shows "main digit lines = ([Printed (Some (str ''zd ''))], 1)"
  using main_eq [OF title_checks_typed [OF assms]] by simp

lemma main_untyped:
  assumes "4 \<le> length (strip_comments lines)"
    and "length (strip_comments lines ! 0) \<le> 50"
    and "\<not> list_ex (\<lambda>commit_type. startswith (strip_comments lines ! 0) commit_type)
           valid_commit_types"
  shows "main digit lines = ([Colored WARNING msg_type], 1)"
  using main_eq [OF title_checks_untyped [OF assms]] by simp

lemma main_long_title:
  assumes "4 \<le> length (strip_comments lines)"
    and "50 < length (strip_comments lines ! 0)"
  shows "main digit lines = ([Colored WARNING msg_title], 1)"
  using main_eq [OF title_checks_long_title [OF assms]] by simp

lemma main_too_few:
  assumes "length (strip_comments lines) < 4"
  shows "main digit lines = ([Colored ERROR msg_lines], 1)"
  using main_eq [OF title_checks_too_few [OF assms]] by simp

lemmas eval_lines = str_def strip_comments_Cons strip_comments_Nil isspace_def

lemma main_cases:
  "main digit lines = ([Colored ERROR msg_lines], 1)
   \<or> main digit lines = ([Colored WARNING msg_title], 1)
   \<or> (main digit lines = ([Colored WARNING msg_type], 1)
       \<and> \<not> list_ex (\<lambda>commit_type. startswith (strip_comments lines ! 0) commit_type)
              valid_commit_types)
   \<or> main digit lines = ([Printed (Some (str ''zd ''))], 1)"
proof -
  let ?cm = "strip_comments lines"
  consider "length ?cm < 4"
    | "4 \<le> length ?cm" "50 < length (?cm ! 0)"
    | "4 \<le> length ?cm" "length (?cm ! 0) \<le> 50"
      "\<not> list_ex (\<lambda>commit_type. startswith (?cm ! 0) commit_type) valid_commit_types"
    | "4 \<le> length ?cm" "length (?cm ! 0) \<le> 50"
      "list_ex (\<lambda>commit_type. startswith (?cm ! 0) commit_type) valid_commit_types"
    by linarith
  then show ?thesis
  proof cases
    case 1
    then show ?thesis by (simp add: main_too_few)
  next
    case 2
    then show ?thesis by (simp add: main_long_title)
  next
    case 3
    then show ?thesis by (simp add: main_untyped)
  next
    case 4
    then show ?thesis by (simp add: main_typed)
  qed
qed

lemma first_statements_pass:
  assumes "block (take 4 (title_checks digit commit_message)) start = (s, Next)"
  shows "list_ex (\<lambda>commit_type. startswith (commit_message ! 0) commit_type) valid_commit_types"
proof (rule ccontr)
  assume "\<not> ?thesis"
  with assms show False
    by (simp add: title_checks_def Let_def seq_def start_def set_has_warning_def
        structure_check_def title_length_check_def commit_type_check_def print_with_color_def
        sys_exit_def skip_def split: if_splits)
qed

section \<open>The claims of the specification\<close>

text \<open>
  C1. Every message that has at least four lines left after its comments are removed,
  a title line of at most 50 characters and a title that starts with a commit type runs
  through both tracker loops; then line 118 prints the loop variable, which holds the
  last of the 60 tokens, \<open>zd\<close> followed by a space, and line 119 exits with status 1.
  Whatever statements \<open>rest\<close> follow line 119, they are not executed: the outcome does
  not depend on them, \<open>has_story_id\<close> is never assigned \<open>True\<close> and the console
  holds the printed token only.
\<close>

theorem exit_after_tracker_loop:
  assumes "4 \<le> length (strip_comments lines)"
    and "length (strip_comments lines ! 0) \<le> 50"
    and "list_ex (\<lambda>commit_type. startswith (strip_comments lines ! 0) commit_type)
           valid_commit_types"
  shows "block (title_checks digit (strip_comments lines) @ rest) start =
           (\<lparr>has_warning = False, valid_issue_tracker_tool_with_suffix = Some (str ''zd ''),
             has_story_id = False, stdout = [Printed (Some (str ''zd ''))]\<rparr>, Exit 1)
         \<and> check_commit_msg_pattern digit lines =
           (\<lparr>has_warning = False, valid_issue_tracker_tool_with_suffix = Some (str ''zd ''),
             has_story_id = False, stdout = [Printed (Some (str ''zd ''))]\<rparr>, Exit 1)
         \<and> main digit lines = ([Printed (Some (str ''zd ''))], 1)
         \<and> length valid_issue_tracker_tools_with_suffixes = 60
         \<and> last valid_issue_tracker_tools_with_suffixes = str ''zd ''"
  using check_eq_title_checks [OF title_checks_typed [OF assms]]
    main_eq [OF title_checks_typed [OF assms]] length_tokens last_token
  by simp

theorem exit_after_tracker_loop_witness:
  "4 \<le> length (strip_comments
            [str ''docs: describe the hook\<newline>'', str ''# a comment\<newline>'', str ''\<newline>'',
             str ''x\<newline>'', str ''\<newline>''])
   \<and> length (strip_comments
            [str ''docs: describe the hook\<newline>'', str ''# a comment\<newline>'', str ''\<newline>'',
             str ''x\<newline>'', str ''\<newline>''] ! 0) \<le> 50
   \<and> list_ex (\<lambda>commit_type. startswith (strip_comments
            [str ''docs: describe the hook\<newline>'', str ''# a comment\<newline>'', str ''\<newline>'',
             str ''x\<newline>'', str ''\<newline>''] ! 0) commit_type) valid_commit_types
   \<and> block (title_checks (\<lambda>c. 48 \<le> c \<and> c \<le> 57) (strip_comments
            [str ''docs: describe the hook\<newline>'', str ''# a comment\<newline>'', str ''\<newline>'',
             str ''x\<newline>'', str ''\<newline>'']) @ [report_ok]) start =
           (\<lparr>has_warning = False, valid_issue_tracker_tool_with_suffix = Some (str ''zd ''),
             has_story_id = False, stdout = [Printed (Some (str ''zd ''))]\<rparr>, Exit 1)
   \<and> main (\<lambda>c. 48 \<le> c \<and> c \<le> 57)
        [str ''docs: describe the hook\<newline>'', str ''# a comment\<newline>'', str ''\<newline>'',
         str ''x\<newline>'', str ''\<newline>''] = ([Printed (Some (str ''zd ''))], 1)"
proof -
  let ?lines = "[str ''docs: describe the hook\<newline>'', str ''# a comment\<newline>'', str ''\<newline>'',
             str ''x\<newline>'', str ''\<newline>'']"
  have clean: "strip_comments ?lines =
      [str ''docs: describe the hook\<newline>'', str ''\<newline>'', str ''x\<newline>'', str ''\<newline>'']"
    by (simp add: eval_lines)
  have h1: "4 \<le> length (strip_comments ?lines)"
    unfolding clean by simp
  have h2: "length (strip_comments ?lines ! 0) \<le> 50"
    unfolding clean by (simp add: str_def)
  have h3: "list_ex (\<lambda>commit_type. startswith (strip_comments ?lines ! 0) commit_type)
      valid_commit_types"
    unfolding clean by (simp add: str_def valid_commit_types_def)
  from h1 h2 h3
    exit_after_tracker_loop [OF h1 h2 h3, of "\<lambda>c. 48 \<le> c \<and> c \<le> 57" "[report_ok]"]
  show ?thesis by blast
qed

text \<open>
  C2. On the first end-to-end example of the specification the hook does not report
  the required pattern: it prints the last tracker token and exits with status 1,
  because of the exit at line 119.
\<close>

theorem example_1_prints_token_and_fails:
  "main digit [str ''feat: add login\<newline>'', str ''\<newline>'', str ''implements oauth [#123]\<newline>'',
               str ''\<newline>'']
     = ([Printed (Some (str ''zd ''))], 1)"
  by (rule main_typed) (simp_all add: eval_lines valid_commit_types_def)

text \<open>
  C3. A title made of a commit type, a tracker token and digits draws no warning from
  the tracker loops, but the separator check is not reached: the token is printed and
  the hook exits with status 1 at line 119.
\<close>

theorem typed_token_digits_exits:
  "main digit [str ''featgh#123\<newline>'', str ''\<newline>'', str ''implements oauth [#123]\<newline>'',
               str ''\<newline>'']
     = ([Printed (Some (str ''zd ''))], 1)"
  by (rule main_typed) (simp_all add: eval_lines valid_commit_types_def)

text \<open>
  C4. A title made of a commit type, a tracker token and letters draws no warning
  about the tracker reference: the loop of line 110 looks for the token at the start of
  the title, where the commit type is, so the hook prints the last token and exits
  with status 1.
\<close>

theorem typed_token_letters_no_warning:
  "main digit [str ''featgh#abc\<newline>'', str ''\<newline>'', str ''implements oauth [#123]\<newline>'',
               str ''\<newline>'']
     = ([Printed (Some (str ''zd ''))], 1)"
  by (rule main_typed) (simp_all add: eval_lines valid_commit_types_def)

text \<open>
  C5. On the second end-to-end example of the specification, where no blank line
  follows the title, the warning about the missing blank line is not printed: the hook
  prints the last tracker token and exits with status 1 at line 119.
\<close>

theorem example_2_prints_token_and_fails:
  "main digit [str ''fix bug\<newline>'', str ''body text\<newline>'', str ''\<newline>'', str ''\<newline>'']
     = ([Printed (Some (str ''zd ''))], 1)"
  by (rule main_typed) (simp_all add: eval_lines valid_commit_types_def)

text \<open>
  C6. When fewer than four lines are left after the comments are removed, the hook
  prints the ERROR about the number of lines and exits with status 1. Nothing else is
  printed and no variable of a later check is assigned.
\<close>

theorem fewer_than_four_lines:
  assumes "length (strip_comments lines) < 4"
  shows "check_commit_msg_pattern digit lines =
           (\<lparr>has_warning = False, valid_issue_tracker_tool_with_suffix = None,
             has_story_id = False, stdout = [Colored ERROR msg_lines]\<rparr>, Exit 1)
         \<and> main digit lines = ([Colored ERROR msg_lines], 1)"
  using main_eq [OF title_checks_too_few [OF assms]] by simp

theorem fewer_than_four_lines_witness:
  "length (strip_comments
      [str ''feat: add login\<newline>'', str ''  # why\<newline>'', str ''\<newline>'', str ''body [#1]\<newline>'']) < 4
   \<and> main (\<lambda>c. 48 \<le> c \<and> c \<le> 57)
      [str ''feat: add login\<newline>'', str ''  # why\<newline>'', str ''\<newline>'', str ''body [#1]\<newline>'']
     = ([Colored ERROR msg_lines], 1)"
proof -
  have h: "length (strip_comments
      [str ''feat: add login\<newline>'', str ''  # why\<newline>'', str ''\<newline>'', str ''body [#1]\<newline>'']) < 4"
    by (simp add: eval_lines)
  from h fewer_than_four_lines [OF h, of "\<lambda>c. 48 \<le> c \<and> c \<le> 57"]
  show ?thesis by blast
qed

text \<open>
  C7. When at least four lines are left, the title line has at most 50 characters and
  the title starts with none of the eight commit types, the hook prints the WARNING
  about the missing commit type and exits with status 1, and it is the check of lines
  78 to 83 that exits. This holds whether or not the title starts with a tracker name;
  in particular it holds for the title line \<open>gh#456\<close>, whatever the other lines are.
\<close>

theorem missing_type_tag:
  "(4 \<le> length (strip_comments lines) \<and> length (strip_comments lines ! 0) \<le> 50
      \<and> \<not> list_ex (\<lambda>commit_type. startswith (strip_comments lines ! 0) commit_type)
             valid_commit_types
    \<longrightarrow> check_commit_msg_pattern digit lines =
          (\<lparr>has_warning = True, valid_issue_tracker_tool_with_suffix = None,
            has_story_id = False, stdout = [Colored WARNING msg_type]\<rparr>, Exit 1)
        \<and> main digit lines = ([Colored WARNING msg_type], 1)
        \<and> snd (commit_type_check (strip_comments lines ! 0) s) = Exit 1)
   \<and> (3 \<le> length (strip_comments others)
    \<longrightarrow> main digit (str ''gh#456\<newline>'' # others) = ([Colored WARNING msg_type], 1))"
proof (intro conjI impI)
  assume h: "4 \<le> length (strip_comments lines) \<and> length (strip_comments lines ! 0) \<le> 50
      \<and> \<not> list_ex (\<lambda>commit_type. startswith (strip_comments lines ! 0) commit_type)
             valid_commit_types"
  then have t: "block (title_checks digit (strip_comments lines)) start =
          (\<lparr>has_warning = True, valid_issue_tracker_tool_with_suffix = None,
            has_story_id = False, stdout = [Colored WARNING msg_type]\<rparr>, Exit 1)"
    by (simp add: title_checks_untyped)
  from main_eq [OF t]
  show "check_commit_msg_pattern digit lines =
          (\<lparr>has_warning = True, valid_issue_tracker_tool_with_suffix = None,
            has_story_id = False, stdout = [Colored WARNING msg_type]\<rparr>, Exit 1)"
    and "main digit lines = ([Colored WARNING msg_type], 1)"
    by simp_all
  from h show "snd (commit_type_check (strip_comments lines ! 0) s) = Exit 1"
    by (simp add: commit_type_check_def seq_def set_has_warning_def print_with_color_def
        sys_exit_def)
next
  assume m: "3 \<le> length (strip_comments others)"
  have clean: "strip_comments (str ''gh#456\<newline>'' # others) = str ''gh#456\<newline>'' # strip_comments others"
    by (simp add: eval_lines)
  show "main digit (str ''gh#456\<newline>'' # others) = ([Colored WARNING msg_type], 1)"
    by (rule main_untyped) (use m in \<open>simp_all add: clean\<close>, simp_all add: str_def valid_commit_types_def)
qed

theorem missing_type_tag_witness:
  "4 \<le> length (strip_comments
            [str ''gh#456\<newline>'', str ''\<newline>'', str ''body [#1]\<newline>'', str ''\<newline>''])
   \<and> length (strip_comments
            [str ''gh#456\<newline>'', str ''\<newline>'', str ''body [#1]\<newline>'', str ''\<newline>''] ! 0) \<le> 50
   \<and> \<not> list_ex (\<lambda>commit_type. startswith (strip_comments
            [str ''gh#456\<newline>'', str ''\<newline>'', str ''body [#1]\<newline>'', str ''\<newline>''] ! 0) commit_type)
          valid_commit_types
   \<and> 3 \<le> length (strip_comments [str ''\<newline>'', str ''body [#1]\<newline>'', str ''\<newline>''])
   \<and> check_commit_msg_pattern (\<lambda>c. 48 \<le> c \<and> c \<le> 57)
        [str ''gh#456\<newline>'', str ''\<newline>'', str ''body [#1]\<newline>'', str ''\<newline>''] =
          (\<lparr>has_warning = True, valid_issue_tracker_tool_with_suffix = None,
            has_story_id = False, stdout = [Colored WARNING msg_type]\<rparr>, Exit 1)
   \<and> main (\<lambda>c. 48 \<le> c \<and> c \<le> 57)
        [str ''gh#456\<newline>'', str ''\<newline>'', str ''body [#1]\<newline>'', str ''\<newline>'']
       = ([Colored WARNING msg_type], 1)"
proof -
  let ?lines = "[str ''gh#456\<newline>'', str ''\<newline>'', str ''body [#1]\<newline>'', str ''\<newline>'']"
  have clean: "strip_comments ?lines = ?lines"
    by (simp add: eval_lines)
  have h1: "4 \<le> length (strip_comments ?lines)"
    unfolding clean by simp
  have h2: "length (strip_comments ?lines ! 0) \<le> 50"
    unfolding clean by (simp add: str_def)
  have h3: "\<not> list_ex (\<lambda>commit_type. startswith (strip_comments ?lines ! 0) commit_type)
      valid_commit_types"
    unfolding clean by (simp add: str_def valid_commit_types_def)
  have h4: "3 \<le> length (strip_comments [str ''\<newline>'', str ''body [#1]\<newline>'', str ''\<newline>''])"
    by (simp add: eval_lines)
  from h1 h2 h3 h4
    missing_type_tag [where lines = ?lines and digit = "\<lambda>c. 48 \<le> c \<and> c \<le> 57" and s = start
        and others = "[str ''\<newline>'', str ''body [#1]\<newline>'', str ''\<newline>'']"]
  show ?thesis by blast
qed



text \<open>
  C9. Removing the comment lines is idempotent.
\<close>

theorem strip_comments_idempotent:
  "strip_comments (strip_comments lines) = strip_comments lines"
  by (simp add: strip_comments_def)

theorem strip_comments_idempotent_witness:
  "strip_comments (strip_comments [str ''fix: a\<newline>'', str ''\<newline>'', str '' # b\<newline>'', str ''c # d\<newline>''])
     = [str ''fix: a\<newline>'', str ''\<newline>'', str ''c # d\<newline>'']"
proof -
  have "strip_comments [str ''fix: a\<newline>'', str ''\<newline>'', str '' # b\<newline>'', str ''c # d\<newline>'']
     = [str ''fix: a\<newline>'', str ''\<newline>'', str ''c # d\<newline>'']"
    by (simp add: eval_lines)
  with strip_comments_idempotent
         [of "[str ''fix: a\<newline>'', str ''\<newline>'', str '' # b\<newline>'', str ''c # d\<newline>'']"]
  show ?thesis by simp
qed

text \<open>
  C10. Neither the warning of the loop of lines 90 to 95 nor the warning of the loop of
  lines 110 to 116 is ever printed. The first four statements of the function fall
  through only when the title starts with a commit type. Such a title starts with no
  tracker name and with no token, so both loops fall through with nothing printed,
  whatever the state; the second leaves the last token in its loop variable. The
  message of the first loop, which is also the message of the commit-type check, is
  not printed for a title that starts with a commit type, and the message of the
  second loop is printed for no input at all. The reason is the first character: no
  commit type begins with the character a tracker name or a token begins with.
\<close>

theorem tracker_warnings_unreachable:
  "(block (take 4 (title_checks digit commit_message)) start = (s0, Next)
      \<longrightarrow> list_ex (\<lambda>commit_type. startswith (commit_message ! 0) commit_type)
            valid_commit_types)
   \<and> (list_ex (\<lambda>commit_type. startswith title commit_type) valid_commit_types
      \<longrightarrow> (\<forall>tool \<in> set valid_issue_tracker_tools. \<not> startswith title tool)
        \<and> (\<forall>token \<in> set valid_issue_tracker_tools_with_suffixes. \<not> startswith title token)
        \<and> tracker_name_check title s = (s, Next)
        \<and> tracker_reference_check digit title s =
            (s\<lparr>valid_issue_tracker_tool_with_suffix := Some (str ''zd '')\<rparr>, Next))
   \<and> (list_ex (\<lambda>commit_type. startswith (strip_comments lines ! 0) commit_type)
         valid_commit_types
      \<longrightarrow> Colored WARNING msg_type \<notin> set (fst (main digit lines)))
   \<and> Colored WARNING msg_tracker \<notin> set (fst (main digit lines))
   \<and> (\<forall>commit_type \<in> set valid_commit_types.
        \<forall>name \<in> set (valid_issue_tracker_tools @ valid_issue_tracker_tools_with_suffixes).
          commit_type \<noteq> [] \<and> name \<noteq> [] \<and> hd commit_type \<noteq> hd name)"
proof (intro conjI impI ballI)
  assume "block (take 4 (title_checks digit commit_message)) start = (s0, Next)"
  then show "list_ex (\<lambda>commit_type. startswith (commit_message ! 0) commit_type)
      valid_commit_types"
    by (rule first_statements_pass)
next
  fix tool
  assume "list_ex (\<lambda>commit_type. startswith title commit_type) valid_commit_types"
    and "tool \<in> set valid_issue_tracker_tools"
  then show "\<not> startswith title tool" by (rule typed_title_no_tool)
next
  fix token
  assume "list_ex (\<lambda>commit_type. startswith title commit_type) valid_commit_types"
    and "token \<in> set valid_issue_tracker_tools_with_suffixes"
  then show "\<not> startswith title token" by (rule typed_title_no_token)
next
  assume "list_ex (\<lambda>commit_type. startswith title commit_type) valid_commit_types"
  then show "tracker_name_check title s = (s, Next)"
    by (rule tracker_name_check_typed)
next
  assume "list_ex (\<lambda>commit_type. startswith title commit_type) valid_commit_types"
  then show "tracker_reference_check digit title s =
      (s\<lparr>valid_issue_tracker_tool_with_suffix := Some (str ''zd '')\<rparr>, Next)"
    by (rule tracker_reference_check_typed)
next
  assume "list_ex (\<lambda>commit_type. startswith (strip_comments lines ! 0) commit_type)
      valid_commit_types"
  with main_cases [of digit lines]
  show "Colored WARNING msg_type \<notin> set (fst (main digit lines))"
    using msgs_distinct by auto
next
  from main_cases [of digit lines]
  show "Colored WARNING msg_tracker \<notin> set (fst (main digit lines))"
    using msgs_distinct by auto
next
  fix commit_type name
  assume t: "commit_type \<in> set valid_commit_types"
    and "name \<in> set (valid_issue_tracker_tools @ valid_issue_tracker_tools_with_suffixes)"
  then have "name \<noteq> [] \<and> hd name \<in> {106, 103, 98, 108, 122}"
    using tools_hd tokens_hd by auto
  with valid_commit_types_hd [OF t]
  show "commit_type \<noteq> []" and "name \<noteq> []" and "hd commit_type \<noteq> hd name"
    by auto
qed

theorem tracker_warnings_unreachable_witness:
  "block (take 4 (title_checks (\<lambda>c. 48 \<le> c \<and> c \<le> 57)
            [str ''fix: gh#12a\<newline>'', str ''\<newline>'', str ''body [#1]\<newline>'', str ''\<newline>'']))
     start = (start, Next)
   \<and> list_ex (\<lambda>commit_type. startswith (str ''fix: gh#12a\<newline>'') commit_type) valid_commit_types
   \<and> tracker_name_check (str ''fix: gh#12a\<newline>'') start = (start, Next)
   \<and> tracker_reference_check (\<lambda>c. 48 \<le> c \<and> c \<le> 57) (str ''fix: gh#12a\<newline>'') start =
        (start\<lparr>valid_issue_tracker_tool_with_suffix := Some (str ''zd '')\<rparr>, Next)
   \<and> str ''feat'' \<in> set valid_commit_types
   \<and> str ''gh#'' \<in> set (valid_issue_tracker_tools @ valid_issue_tracker_tools_with_suffixes)
   \<and> hd (str ''feat'') \<noteq> hd (str ''gh#'')
   \<and> Colored WARNING msg_tracker \<notin> set (fst (main (\<lambda>c. 48 \<le> c \<and> c \<le> 57)
        [str ''fix: gh#12a\<newline>'', str ''\<newline>'', str ''body [#1]\<newline>'', str ''\<newline>'']))"
proof -
  let ?lines = "[str ''fix: gh#12a\<newline>'', str ''\<newline>'', str ''body [#1]\<newline>'', str ''\<newline>'']"
  have h0: "block (take 4 (title_checks (\<lambda>c. 48 \<le> c \<and> c \<le> 57) ?lines)) start = (start, Next)"
    by (simp add: title_checks_def Let_def seq_def start_def set_has_warning_def
        structure_check_def title_length_check_def commit_type_check_def skip_def str_def
        valid_commit_types_def)
  have h1: "list_ex (\<lambda>commit_type. startswith (str ''fix: gh#12a\<newline>'') commit_type)
      valid_commit_types"
    by (simp add: str_def valid_commit_types_def)
  have h2: "str ''feat'' \<in> set valid_commit_types"
    by (simp add: valid_commit_types_def)
  have h3: "str ''gh#'' \<in> set (valid_issue_tracker_tools @ valid_issue_tracker_tools_with_suffixes)"
    by (simp add: valid_issue_tracker_tools_with_suffixes_def valid_issue_tracker_suffixes_def
        valid_issue_tracker_tools_short_names_def str_def)
  from h0 h1 h2 h3
    tracker_warnings_unreachable [where digit = "\<lambda>c. 48 \<le> c \<and> c \<le> 57" and lines = ?lines
      and title = "str ''fix: gh#12a\<newline>''" and s = start and s0 = start and commit_message = ?lines]
  show ?thesis by blast
qed

end
